theory Spec2Isabelle
  imports Main "HOL-Library.Sublist"
begin

section \<open>Errors\<close>

text \<open>
  The exceptions the modelled functions raise or catch.  \<open>UnresolvableName\<close> is a
  subclass of \<open>InferenceError\<close> in the source, so a handler for \<open>InferenceError\<close>
  also catches it (\<open>is_InferenceError\<close>).  \<open>StopIteration\<close> is what \<open>.next()\<close> raises
  on an exhausted generator.
\<close>

datatype error =
    InferenceError
  | UnresolvableName string
  | NotFoundError
  | NoDefault
  | AstroidError
  | AttributeError
  | IndexError
  | KeyError
  | TypeError
  | AssertionError
  | StopIteration

fun is_InferenceError :: "error \<Rightarrow> bool" where
  "is_InferenceError InferenceError = True"
| "is_InferenceError (UnresolvableName x) = True"
| "is_InferenceError e = False"

section \<open>The inference protocol of \<open>inference.py\<close>\<close>

subsection \<open>Nodes, inferred values and lazy sequences\<close>

text \<open>
  The inference rules address nodes by identity and follow their attributes, so the
  nodes of one source unit are kept in an arena: a node is its index (\<open>ref\<close>), and
  the attributes that hold nodes hold indices.  The classes are those
  \<open>inference.py\<close> gives a rule whose collaborators are among the sources; every other
  class is \<open>NOther\<close> and keeps \<open>infer_default\<close>.  (The constructors carry the prefix
  \<open>N\<close> to keep them apart from the classes of the tree model below.)
\<close>

type_synonym ref = nat

datatype pyval = PInt int | PStr string | PBool bool | PNone

datatype astng =
    NConst pyval
  | NList "ref list"
  | NTuple "ref list"
  | NDict "(ref \<times> ref) list"
  | NModule
  | NClass
  | NFunction
  | NLambda
  | NName string
  | NAssName string
  | NSubscript ref "ref list"
  | NOther

text \<open>
  An inferred value is the sentinel \<open>YES\<close> (the spec's Unknown), a node of the arena,
  a node built during inference (\<open>Const(self.value[index])\<close>, \<open>const_factory(())\<close>) or
  an \<open>Instance\<close> proxy.
\<close>

datatype inferred = YES | Ref ref | Fresh astng | Instance inferred

text \<open>
  A generator is modelled by what it does when it is run to its end: the values it
  yields, and the exception that ends it, if one does.  A computation that does not
  return is \<open>None\<close>.
\<close>

datatype 'a gen = Gen (yields: "'a list") (raised: "error option")

text \<open>\<open>itertools.chain\<close>: the generators are run in turn; an exception ends the chain.\<close>

fun chain :: "'a gen list \<Rightarrow> 'a gen" where
  "chain [] = Gen [] None"
| "chain (Gen vs (Some e) # gs) = Gen vs (Some e)"
| "chain (Gen vs None # gs) = Gen (vs @ yields (chain gs)) (raised (chain gs))"

text \<open>
  The \<open>InferenceContext\<close> of the spec: the pairs under inference, the name being
  looked up, the bound receiver and the identity of the attached call context.
\<close>

type_synonym signature = "ref \<times> inferred option \<times> string option \<times> nat option"

record icontext =
  path :: "signature list"
  lookupname :: "string option"
  boundnode :: "inferred option"
  callcontext :: "nat option"

text \<open>
  A source unit: the arena, and the two collaborators of the name rules that are not
  among the sources, given by their results.  \<open>lookup_stmts\<close> holds, for a \<open>Name\<close>
  node, the statements \<open>self.lookup(self.name)\<close> returns (the bindings that survive
  the statement filter); \<open>assigned_stmts\<close> holds, for an \<open>AssName\<close> node, the nodes
  \<open>self.assigned_stmts(context)\<close> yields (the bound value).  A node without an entry
  has none.
\<close>

record program =
  nodes :: "astng list"
  lookup_stmts :: "(ref \<times> ref list) list"
  assigned_stmts :: "(ref \<times> ref list) list"

definition lookup :: "program \<Rightarrow> ref \<Rightarrow> ref list" where
  "lookup P self = (case map_of (lookup_stmts P) self of None \<Rightarrow> [] | Some stmts \<Rightarrow> stmts)"

definition assigned_nodes :: "program \<Rightarrow> ref \<Rightarrow> ref list" where
  "assigned_nodes P self = (case map_of (assigned_stmts P) self of None \<Rightarrow> [] | Some stmts \<Rightarrow> stmts)"

text \<open>
  \<open>node.infer\<close> is attached to the node classes at import time and called through the
  node, so every rule takes it as its first argument: \<open>infer context node\<close>.
\<close>

type_synonym infer_fn = "icontext option \<Rightarrow> ref \<Rightarrow> inferred gen option"

text \<open>The node an inferred value is, if it is one.\<close>

definition node_of :: "program \<Rightarrow> inferred \<Rightarrow> astng option" where
  "node_of P v =
     (case v of
        Ref r \<Rightarrow> (if r < length (nodes P) then Some (nodes P ! r) else None)
      | Fresh n \<Rightarrow> Some n
      | _ \<Rightarrow> None)"

text \<open>\<open>index.value\<close>: only a \<open>Const\<close> has the attribute.\<close>

definition const_value :: "program \<Rightarrow> inferred \<Rightarrow> pyval option" where
  "const_value P v = (case node_of P v of Some (NConst c) \<Rightarrow> Some c | _ \<Rightarrow> None)"

subsection \<open>\<open>getitem\<close> (node_classes.py)\<close>

text \<open>
  Python's \<open>seq[index]\<close> on a list, a tuple or a string: the index is an integer (a
  \<open>bool\<close> is one), a negative index counts from the end, an index out of range raises
  \<open>IndexError\<close> and an index of another type \<open>TypeError\<close>.
\<close>

definition py_index :: "pyval \<Rightarrow> error + int" where
  "py_index v =
     (case v of
        PInt i \<Rightarrow> Inr i
      | PBool b \<Rightarrow> Inr (if b then 1 else 0)
      | _ \<Rightarrow> Inl TypeError)"

definition seq_getitem :: "'a list \<Rightarrow> pyval \<Rightarrow> error + 'a" where
  "seq_getitem xs v =
     (case py_index v of
        Inl e \<Rightarrow> Inl e
      | Inr i \<Rightarrow>
          (let n = int (length xs); j = (if i < 0 then i + n else i)
           in if 0 \<le> j \<and> j < n then Inr (xs ! nat j) else Inl IndexError))"

text \<open>Python's \<open>==\<close> on constants: a \<open>bool\<close> compares as the integer it is.\<close>

fun py_eq :: "pyval \<Rightarrow> pyval \<Rightarrow> bool" where
  "py_eq (PInt i) (PInt j) = (i = j)"
| "py_eq (PInt i) (PBool b) = (i = (if b then 1 else 0))"
| "py_eq (PBool b) (PInt i) = (i = (if b then 1 else 0))"
| "py_eq (PBool a) (PBool b) = (a = b)"
| "py_eq (PStr s) (PStr t) = (s = t)"
| "py_eq PNone PNone = True"
| "py_eq a b = False"

text \<open>
  \<open>Dict.getitem\<close> (node_classes.py, 748-758).  The inner loop runs the generator
  \<open>key.infer(context)\<close>: a value that is a \<open>Const\<close> equal to the key returns the item's
  value at once; an exception of the generator leaves \<open>getitem\<close>; after the last item
  \<open>IndexError\<close> is raised.
\<close>

definition key_matches :: "program \<Rightarrow> pyval \<Rightarrow> inferred \<Rightarrow> bool" where
  "key_matches P lookup_key inferredkey =
     (inferredkey \<noteq> YES \<and>
      (case const_value P inferredkey of None \<Rightarrow> False | Some c \<Rightarrow> py_eq c lookup_key))"

fun Dict_getitem ::
  "infer_fn \<Rightarrow> program \<Rightarrow> (ref \<times> ref) list \<Rightarrow> pyval \<Rightarrow> icontext option \<Rightarrow> (error + ref) option" where
  "Dict_getitem node_infer P [] lookup_key context = Some (Inl IndexError)"
| "Dict_getitem node_infer P ((key, val) # items) lookup_key context =
     (case node_infer context key of
        None \<Rightarrow> None
      | Some g \<Rightarrow>
          if list_ex (key_matches P lookup_key) (yields g) then Some (Inr val)
          else (case raised g of
                  Some e \<Rightarrow> Some (Inl e)
                | None \<Rightarrow> Dict_getitem node_infer P items lookup_key context))"

text \<open>
  \<open>node.getitem(index)\<close> as the call sites of \<open>inference.py\<close> write it, with no
  context: \<open>List.getitem\<close> and \<open>Tuple.getitem\<close> (\<open>self.elts[index]\<close>),
  \<open>Const.getitem\<close> (a string is indexed, another constant raises \<open>TypeError\<close>) and
  \<open>Dict.getitem\<close> with its default \<open>context=None\<close>.  A node of another class has no
  \<open>getitem\<close>: \<open>AttributeError\<close>.
\<close>

definition getitem :: "infer_fn \<Rightarrow> program \<Rightarrow> astng option \<Rightarrow> pyval \<Rightarrow> (error + inferred) option" where
  "getitem node_infer P n index =
     (case n of
        Some (NList elts) \<Rightarrow> Some (map_sum id Ref (seq_getitem elts index))
      | Some (NTuple elts) \<Rightarrow> Some (map_sum id Ref (seq_getitem elts index))
      | Some (NConst (PStr s)) \<Rightarrow>
          Some (map_sum id (\<lambda>c. Fresh (NConst (PStr [c]))) (seq_getitem s index))
      | Some (NConst c) \<Rightarrow> Some (Inl TypeError)
      | Some (NDict items) \<Rightarrow> map_option (map_sum id Ref) (Dict_getitem node_infer P items index None)
      | _ \<Rightarrow> Some (Inl AttributeError))"

subsection \<open>The rules\<close>

text \<open>\<open>infer_default\<close> (165-168) and \<open>infer_end\<close> (171-182).\<close>

definition infer_default :: "inferred gen option" where
  "infer_default = Some (Gen [] (Some InferenceError))"

definition infer_end :: "inferred \<Rightarrow> inferred gen option" where
  "infer_end self = Some (Gen [self] None)"

text \<open>
  Modelled from the spec: \<open>path_wrapper\<close> (the package's \<open>__init__\<close> is not among the
  sources), the cycle guard of section 4.5.  A call without a context starts a new
  one.  The signature is the node with the bound receiver, the lookup name and the
  call context; when it is in \<open>context.path\<close> the result is Unknown, else it is added
  and the rule runs.  The path is passed down and never shared, which is the
  stack-disciplined release.
\<close>

definition new_context :: icontext where
  "new_context = \<lparr>path = [], lookupname = None, boundnode = None, callcontext = None\<rparr>"

definition signature_of :: "ref \<Rightarrow> icontext \<Rightarrow> signature" where
  "signature_of self c = (self, boundnode c, lookupname c, callcontext c)"

definition context_or_new :: "icontext option \<Rightarrow> icontext" where
  "context_or_new context = (case context of None \<Rightarrow> new_context | Some c \<Rightarrow> c)"

definition push :: "ref \<Rightarrow> icontext \<Rightarrow> icontext" where
  "push self c = c\<lparr>path := signature_of self c # path c\<rparr>"

definition path_wrapper ::
  "(icontext \<Rightarrow> inferred gen option) \<Rightarrow> ref \<Rightarrow> icontext option \<Rightarrow> inferred gen option" where
  "path_wrapper rule self context =
     (let c = context_or_new context
      in if signature_of self c \<in> set (path c) then Some (Gen [YES] None)
         else rule (push self c))"

text \<open>
  Modelled from the spec: \<open>_infer_stmts\<close> (not among the sources).  It infers each
  statement in the given context and unions the results.  As section 7 of the spec
  has it, a failure is caught at the call site: a statement whose name is not
  resolved is skipped, another inference error degrades to Unknown; and as the
  empty-result wrapper of section 4.5, a union with no value is an
  \<open>InferenceError\<close>.  An exception that is no inference error is not caught.
\<close>

fun infer_each :: "infer_fn \<Rightarrow> icontext \<Rightarrow> ref list \<Rightarrow> inferred gen option" where
  "infer_each node_infer c [] = Some (Gen [] None)"
| "infer_each node_infer c (stmt # stmts) =
     (case node_infer (Some c) stmt of
        None \<Rightarrow> None
      | Some (Gen vs None) \<Rightarrow>
          map_option (\<lambda>g. Gen (vs @ yields g) (raised g)) (infer_each node_infer c stmts)
      | Some (Gen vs (Some e)) \<Rightarrow>
          (case e of
             UnresolvableName x \<Rightarrow>
               map_option (\<lambda>g. Gen (vs @ yields g) (raised g)) (infer_each node_infer c stmts)
           | InferenceError \<Rightarrow>
               map_option (\<lambda>g. Gen (vs @ YES # yields g) (raised g)) (infer_each node_infer c stmts)
           | _ \<Rightarrow> Some (Gen vs (Some e))))"

definition infer_stmts :: "infer_fn \<Rightarrow> ref list \<Rightarrow> icontext \<Rightarrow> inferred gen option" where
  "infer_stmts node_infer stmts c =
     (case infer_each node_infer c stmts of
        None \<Rightarrow> None
      | Some (Gen [] None) \<Rightarrow> Some (Gen [] (Some InferenceError))
      | Some g \<Rightarrow> Some g)"

text \<open>\<open>infer_name\<close> (185-192).\<close>

definition infer_name :: "infer_fn \<Rightarrow> program \<Rightarrow> ref \<Rightarrow> string \<Rightarrow> icontext \<Rightarrow> inferred gen option" where
  "infer_name node_infer P self name c =
     (let stmts = lookup P self
      in if stmts = [] then Some (Gen [] (Some (UnresolvableName name)))
         else infer_stmts node_infer stmts (c\<lparr>lookupname := Some name\<rparr>))"

text \<open>\<open>infer_ass\<close> (395-400).\<close>

definition infer_ass :: "infer_fn \<Rightarrow> program \<Rightarrow> ref \<Rightarrow> icontext \<Rightarrow> inferred gen option" where
  "infer_ass node_infer P self c = infer_stmts node_infer (assigned_nodes P self) c"

text \<open>
  \<open>assigned.infer(context)\<close> on the node \<open>getitem\<close> returned: a node of the arena is
  inferred through \<open>infer\<close>, a \<open>Const\<close> built by \<open>Const.getitem\<close> has \<open>infer_end\<close>.
\<close>

definition infer_inferred :: "infer_fn \<Rightarrow> icontext \<Rightarrow> inferred \<Rightarrow> inferred gen option" where
  "infer_inferred node_infer c v = (case v of Ref r \<Rightarrow> node_infer (Some c) r | _ \<Rightarrow> infer_end v)"

text \<open>
  \<open>infer_subscript\<close> (291-310).  \<open>.next()\<close> takes the first value of the index; on a
  generator that yields nothing it raises \<open>StopIteration\<close>, which ends the enclosing
  generator (Python 2), and an exception of the index generator leaves the rule.
  \<open>self.expr.getitem(index.value)\<close> reads \<open>self.expr.getitem\<close>, then \<open>index.value\<close>,
  then calls; a missing attribute is an \<open>AttributeError\<close> either way.
\<close>

definition infer_subscript ::
  "infer_fn \<Rightarrow> program \<Rightarrow> ref \<Rightarrow> ref list \<Rightarrow> icontext \<Rightarrow> inferred gen option" where
  "infer_subscript node_infer P expr subs c =
     (if length subs = 1 then
        (case node_infer (Some c) (subs ! 0) of
           None \<Rightarrow> None
         | Some (Gen [] None) \<Rightarrow> Some (Gen [] None)
         | Some (Gen [] (Some e)) \<Rightarrow> Some (Gen [] (Some e))
         | Some (Gen (index # rest) r) \<Rightarrow>
             if index = YES then Some (Gen [YES] None)
             else
               (case (case const_value P index of
                        None \<Rightarrow> Some (Inl AttributeError)
                      | Some v \<Rightarrow> getitem node_infer P (node_of P (Ref expr)) v) of
                  None \<Rightarrow> None
                | Some (Inl AttributeError) \<Rightarrow> Some (Gen [] (Some InferenceError))
                | Some (Inl IndexError) \<Rightarrow> Some (Gen [YES] None)
                | Some (Inl TypeError) \<Rightarrow> Some (Gen [YES] None)
                | Some (Inl e) \<Rightarrow> Some (Gen [] (Some e))
                | Some (Inr assigned) \<Rightarrow> infer_inferred node_infer c assigned))
      else Some (Gen [] (Some InferenceError)))"

text \<open>
  The rule of each class (the assignments \<open>nodes.X.infer = ...\<close>), and \<open>infer\<close> itself:
  the rules call \<open>infer\<close> again through the nodes, so the recursion is counted by a
  fuel; \<open>None\<close> is a computation the fuel did not suffice for.
\<close>

definition infer_node :: "infer_fn \<Rightarrow> program \<Rightarrow> icontext option \<Rightarrow> ref \<Rightarrow> inferred gen option" where
  "infer_node node_infer P context self =
     (if self < length (nodes P) then
        (case nodes P ! self of
           NName name \<Rightarrow> path_wrapper (infer_name node_infer P self name) self context
         | NAssName name \<Rightarrow> path_wrapper (infer_ass node_infer P self) self context
         | NSubscript expr subs \<Rightarrow> path_wrapper (infer_subscript node_infer P expr subs) self context
         | NOther \<Rightarrow> infer_default
         | _ \<Rightarrow> infer_end (Ref self))
      else infer_default)"

primrec infer :: "nat \<Rightarrow> program \<Rightarrow> infer_fn" where
  "infer 0 P = (\<lambda>context self. None)"
| "infer (Suc fuel) P = infer_node (infer fuel P) P"

text \<open>
  \<open>y = {z: 1}[0]; z = y\<close> on one line: \<open>0\<close> is the target \<open>y\<close>, \<open>1\<close> the subscript,
  \<open>2\<close> the dict, \<open>3\<close> its key \<open>z\<close>, \<open>6\<close> the target \<open>z\<close> and \<open>7\<close> the \<open>y\<close> bound to it.
\<close>

definition dict_cycle :: program where
  "dict_cycle =
     \<lparr>nodes = [NAssName ''y'', NSubscript 2 [5], NDict [(3, 4)], NName ''z'',
               NConst (PInt 1), NConst (PInt 0), NAssName ''z'', NName ''y''],
      lookup_stmts = [(3, [6]), (7, [0])],
      assigned_stmts = [(0, [1]), (6, [7])]\<rparr>"

text \<open>
  \<open>a = b; b = a\<close>: \<open>0\<close> is the target \<open>a\<close>, \<open>1\<close> the \<open>b\<close> bound to it, \<open>2\<close> the
  target \<open>b\<close> and \<open>3\<close> the \<open>a\<close> bound to it.
\<close>

definition mutual_cycle :: program where
  "mutual_cycle =
     \<lparr>nodes = [NAssName ''a'', NName ''b'', NAssName ''b'', NName ''a''],
      lookup_stmts = [(1, [2]), (3, [0])],
      assigned_stmts = [(0, [1]), (2, [3])]\<rparr>"

subsection \<open>\<open>Arguments\<close> (node_classes.py, 286-407)\<close>

text \<open>
  A declared parameter is a name, or in Python 2 a tuple of parameters.  \<open>defaults\<close>
  holds the default expressions of the last positional parameters, \<open>kw_defaults\<close> one
  entry per keyword-only parameter (\<open>None\<close> without a default); \<open>vararg\<close> and
  \<open>kwarg\<close> are the names of the catch-all parameters.
\<close>

datatype arg = ArgName string | ArgTuple "arg list"

record arguments =
  args :: "arg list"
  defaults :: "ref list"
  kwonlyargs :: "arg list"
  kw_defaults :: "ref option list"
  vararg :: "string option"
  kwarg :: "string option"

text \<open>
  \<open>_find_arg(argname, args)\<close> with its default \<open>rec=False\<close> (398-407), as
  \<open>default_value\<close> and \<open>CallContext.infer_argument\<close> call it: the index and the node
  of the first parameter of that name; a tuple parameter is passed over.  The second
  argument counts the position (\<open>enumerate\<close>).
\<close>

fun find_arg :: "string \<Rightarrow> arg list \<Rightarrow> nat \<Rightarrow> (nat \<times> arg) option" where
  "find_arg argname [] i = None"
| "find_arg argname (ArgTuple elts # rest) i = find_arg argname rest (Suc i)"
| "find_arg argname (ArgName name # rest) i =
     (if name = argname then Some (i, ArgName name) else find_arg argname rest (Suc i))"

text \<open>\<open>find_argname\<close> (385-389).\<close>

definition find_argname :: "arguments \<Rightarrow> string \<Rightarrow> (nat \<times> arg) option" where
  "find_argname a argname = (if args a \<noteq> [] then find_arg argname (args a) 0 else None)"

text \<open>
  \<open>default_value\<close> (362-375).  \<open>idx\<close> is an integer that may be negative; when it
  is not, it is below \<open>len(self.defaults)\<close>.  \<open>self.kw_defaults[i]\<close> raises
  \<open>IndexError\<close> on a list that is too short.
\<close>

definition default_value :: "arguments \<Rightarrow> string \<Rightarrow> error + ref" where
  "default_value a argname =
     (let positional =
            (case find_arg argname (args a) 0 of
               None \<Rightarrow> None
             | Some (i, n) \<Rightarrow>
                 (let idx = int i - (int (length (args a)) - int (length (defaults a)))
                  in if idx \<ge> 0 then Some (defaults a ! nat idx) else None))
      in case positional of
           Some d \<Rightarrow> Inr d
         | None \<Rightarrow>
             (case find_arg argname (kwonlyargs a) 0 of
                None \<Rightarrow> Inl NoDefault
              | Some (i, n) \<Rightarrow>
                  if i < length (kw_defaults a) then
                    (case kw_defaults a ! i of Some d \<Rightarrow> Inr d | None \<Rightarrow> Inl NoDefault)
                  else Inl IndexError))"

subsection \<open>\<open>CallContext\<close> (inference.py, 80-160)\<close>

text \<open>
  The function node as \<open>infer_argument\<close> reads it: \<open>funcnode.args\<close>,
  \<open>funcnode.type\<close> and \<open>funcnode.parent.frame()\<close>.
\<close>

record funcnode =
  fn_args :: arguments
  fn_type :: string
  fn_parent_frame :: inferred

text \<open>
  The arguments of a call: a \<open>Keyword\<close> node with its name and value, or any other
  expression.
\<close>

datatype callarg = Positional ref | Keyword string ref

record CallContext =
  cc_args :: "ref list"
  nargs :: "(string \<times> ref) list"
  starargs :: "ref option"
  dstarargs :: "ref option"

text \<open>
  \<open>CallContext.__init__\<close> (84-93).  \<open>nargs\<close> is a dictionary: a later keyword of the
  same name replaces an earlier one, so the association list is searched from the
  latest entry.
\<close>

fun split_args :: "callarg list \<Rightarrow> ref list \<times> (string \<times> ref) list \<Rightarrow> ref list \<times> (string \<times> ref) list" where
  "split_args [] acc = acc"
| "split_args (Keyword name v # rest) (as, ns) = split_args rest (as, (name, v) # ns)"
| "split_args (Positional a # rest) (as, ns) = split_args rest (as @ [a], ns)"

definition CallContext_init :: "callarg list \<Rightarrow> ref option \<Rightarrow> ref option \<Rightarrow> CallContext" where
  "CallContext_init call_args star dstar =
     (case split_args call_args ([], []) of
        (as, ns) \<Rightarrow> \<lparr>cc_args = as, nargs = ns, starargs = star, dstarargs = dstar\<rparr>)"

text \<open>
  The loops over \<open>self.starargs.infer(context)\<close> (124-133) and
  \<open>self.dstarargs.infer(context)\<close> (139-148), which collect \<open>its\<close>.  For each
  inferred value: Unknown contributes \<open>(YES,)\<close>; else \<open>getitem\<close> is called with the
  index or the name, an \<open>InferenceError\<close> or \<open>AttributeError\<close> contributes \<open>(YES,)\<close>, an
  \<open>IndexError\<close> or \<open>TypeError\<close> nothing, and the item found contributes the
  generator \<open>item.infer(context)\<close>.
\<close>

fun collect_its ::
  "infer_fn \<Rightarrow> program \<Rightarrow> icontext \<Rightarrow> pyval \<Rightarrow> inferred list \<Rightarrow> (error + inferred gen list) option" where
  "collect_its node_infer P c key [] = Some (Inr [])"
| "collect_its node_infer P c key (infered # rest) =
     (if infered = YES then
        map_option (map_sum id (\<lambda>its. Gen [YES] None # its)) (collect_its node_infer P c key rest)
      else
        (case getitem node_infer P (node_of P infered) key of
           None \<Rightarrow> None
         | Some (Inl e) \<Rightarrow>
             if is_InferenceError e \<or> e = AttributeError then
               map_option (map_sum id (\<lambda>its. Gen [YES] None # its)) (collect_its node_infer P c key rest)
             else if e = IndexError \<or> e = TypeError then collect_its node_infer P c key rest
             else Some (Inl e)
         | Some (Inr item) \<Rightarrow>
             (case infer_inferred node_infer c item of
                None \<Rightarrow> None
              | Some g \<Rightarrow>
                  map_option (map_sum id (\<lambda>its. g # its)) (collect_its node_infer P c key rest))))"

text \<open>
  The whole loop: the generator of the star argument is run; an exception that ends
  it leaves \<open>infer_argument\<close>.
\<close>

definition star_its ::
  "infer_fn \<Rightarrow> program \<Rightarrow> icontext \<Rightarrow> pyval \<Rightarrow> ref \<Rightarrow> (error + inferred gen list) option" where
  "star_its node_infer P c key star =
     (case node_infer (Some c) star of
        None \<Rightarrow> None
      | Some g \<Rightarrow>
          (case collect_its node_infer P c key (yields g) of
             None \<Rightarrow> None
           | Some (Inl e) \<Rightarrow> Some (Inl e)
           | Some (Inr its) \<Rightarrow> (case raised g of Some e \<Rightarrow> Some (Inl e) | None \<Rightarrow> Some (Inr its))))"

text \<open>
  \<open>const_factory\<close> (node_classes.py, 1319-1333) on \<open>()\<close> and \<open>{}\<close>: a new \<open>Tuple\<close>
  and a new \<open>Dict\<close> node without elements.
\<close>

definition const_factory_tuple :: inferred where
  "const_factory_tuple = Fresh (NTuple [])"

definition const_factory_dict :: inferred where
  "const_factory_dict = Fresh (NDict [])"

text \<open>
  \<open>iter(node)\<close>, for \<open>iter((nodes.const_factory(())))\<close> (153, 155): the parentheses
  build no tuple, so the node itself is iterated.  The iteration of a node belongs to
  the node base class, which is not among the sources; it is taken here as that of
  \<open>compiler.ast\<close>, on which \<open>_nodes_compiler.py\<close> builds, whose \<open>Node.__iter__\<close>
  walks the child nodes.  No property below depends on it.
\<close>

definition iter_node :: "program \<Rightarrow> inferred \<Rightarrow> inferred gen" where
  "iter_node P v =
     (case node_of P v of
        Some (NTuple elts) \<Rightarrow> Gen (map Ref elts) None
      | Some (NList elts) \<Rightarrow> Gen (map Ref elts) None
      | Some (NDict items) \<Rightarrow> Gen (concat (map (\<lambda>(k, v). [Ref k, Ref v]) items)) None
      | Some (NSubscript e subs) \<Rightarrow> Gen (map Ref (e # subs)) None
      | Some n \<Rightarrow> Gen [] None
      | None \<Rightarrow> Gen [] (Some TypeError))"

text \<open>
  Steps 4 to 6 of \<open>infer_argument\<close> (136-160), reached when no earlier step
  returned.
\<close>

definition infer_argument_rest ::
  "infer_fn \<Rightarrow> program \<Rightarrow> CallContext \<Rightarrow> funcnode \<Rightarrow> string \<Rightarrow> icontext \<Rightarrow> inferred gen option" where
  "infer_argument_rest node_infer P self funcnode name c =
     (case (case dstarargs self of
              None \<Rightarrow> Some (Inr [])
            | Some dstar \<Rightarrow> star_its node_infer P c (PStr name) dstar) of
        None \<Rightarrow> None
      | Some (Inl e) \<Rightarrow> Some (Gen [] (Some e))
      | Some (Inr its) \<Rightarrow>
          if its \<noteq> [] then Some (chain its)
          else if Some name = vararg (fn_args funcnode) then Some (iter_node P const_factory_tuple)
          else if Some name = kwarg (fn_args funcnode) then Some (iter_node P const_factory_dict)
          else (case default_value (fn_args funcnode) name of
                  Inr d \<Rightarrow> node_infer (Some c) d
                | Inl NoDefault \<Rightarrow> Some (Gen [] (Some InferenceError))
                | Inl e \<Rightarrow> Some (Gen [] (Some e))))"

text \<open>
  \<open>CallContext.infer_argument\<close> (95-160).  A generator the function returns is run
  by its caller; an exception the function raises itself is given as a generator
  that raises it at once.
\<close>

definition infer_argument ::
  "infer_fn \<Rightarrow> program \<Rightarrow> CallContext \<Rightarrow> funcnode \<Rightarrow> string \<Rightarrow> icontext \<Rightarrow> inferred gen option" where
  "infer_argument node_infer P self funcnode name c =
     (case map_of (nargs self) name of
        Some a \<Rightarrow> node_infer (Some c) a
      | None \<Rightarrow>
          (case find_argname (fn_args funcnode) name of
             None \<Rightarrow> infer_argument_rest node_infer P self funcnode name c
           | Some (argindex, argnode) \<Rightarrow>
               if argindex = 0 \<and> fn_type funcnode = ''method'' then
                 Some (Gen [Instance (case boundnode c of Some b \<Rightarrow> b
                                       | None \<Rightarrow> fn_parent_frame funcnode)] None)
               else if argindex = 0 \<and> fn_type funcnode = ''classmethod'' then
                 Some (Gen [case boundnode c of Some b \<Rightarrow> b
                             | None \<Rightarrow> fn_parent_frame funcnode] None)
               else if argindex < length (cc_args self) then
                 node_infer (Some c) (cc_args self ! argindex)
               else
                 (case (case starargs self of
                          None \<Rightarrow> Some (Inr [])
                        | Some star \<Rightarrow> star_its node_infer P c (PInt (int argindex)) star) of
                    None \<Rightarrow> None
                  | Some (Inl e) \<Rightarrow> Some (Gen [] (Some e))
                  | Some (Inr its) \<Rightarrow>
                      if its \<noteq> [] then Some (chain its)
                      else infer_argument_rest node_infer P self funcnode name c)))"

text \<open>
  The method \<open>m(self, y=5)\<close> of a class \<open>A\<close> and the function \<open>f(*args, **kwargs)\<close>,
  with the constants of the calls: \<open>0\<close> is the default \<open>5\<close>, \<open>1\<close> the argument
  \<open>10\<close>, \<open>2\<close> the class \<open>A\<close>.
\<close>

definition method_program :: program where
  "method_program =
     \<lparr>nodes = [NConst (PInt 5), NConst (PInt 10), NClass], lookup_stmts = [], assigned_stmts = []\<rparr>"

definition method_m :: funcnode where
  "method_m =
     \<lparr>fn_args = \<lparr>args = [ArgName ''self'', ArgName ''y''], defaults = [0], kwonlyargs = [],
                 kw_defaults = [], vararg = None, kwarg = None\<rparr>,
      fn_type = ''method'', fn_parent_frame = Ref 2\<rparr>"


subsection \<open>Example programs for the name rules\<close>

text \<open>A name \<open>u\<close> without a binding, also used as the key of a dict \<open>{u: 1}\<close>.\<close>

definition unbound_program :: program where
  "unbound_program =
     \<lparr>nodes = [NName ''u'', NDict [(0, 2)], NConst (PInt 1)],
      lookup_stmts = [], assigned_stmts = []\<rparr>"

text \<open>
  The contexts in which the nodes \<open>6\<close>, \<open>7\<close>, \<open>0\<close> and \<open>1\<close> of \<open>dict_cycle\<close> are
  inferred, once the key \<open>z\<close> (node \<open>3\<close>) is inferred without a context.
\<close>

definition cyc1 :: icontext where
  "cyc1 = \<lparr>path = [(3, None, None, None)],
            lookupname = Some ''z'', boundnode = None, callcontext = None\<rparr>"

definition cyc2 :: icontext where
  "cyc2 = \<lparr>path = [(6, None, Some ''z'', None), (3, None, None, None)],
            lookupname = Some ''z'', boundnode = None, callcontext = None\<rparr>"

definition cyc3 :: icontext where
  "cyc3 = \<lparr>path = [(7, None, Some ''z'', None), (6, None, Some ''z'', None),
                    (3, None, None, None)],
            lookupname = Some ''y'', boundnode = None, callcontext = None\<rparr>"

definition cyc4 :: icontext where
  "cyc4 = \<lparr>path = [(0, None, Some ''y'', None), (7, None, Some ''z'', None),
                    (6, None, Some ''z'', None), (3, None, None, None)],
            lookupname = Some ''y'', boundnode = None, callcontext = None\<rparr>"



section \<open>The node model of \<open>astroid/node_classes.py\<close>\<close>

text \<open>
  A node has a class (\<open>kind\<close>), a source line and its \<open>_astroid_fields\<close>: each field
  holds one child node (\<open>One\<close>) or a list of child nodes (\<open>Many\<close>); a field that
  is \<open>None\<close> in the source is left out.  The classes are those of
  \<open>node_classes.py\<close> that the modelled functions tell apart, and the scoped nodes
  they are nested in.
\<close>

datatype 'a fld = One 'a | Many "'a list"

datatype kind =
    Module | FunctionDef | ClassDef | Lambda | GeneratorExp
  | If | TryExcept | TryFinally | ExceptHandler | For | While | With
  | Assign | AugAssign | Delete | Expr | Pass | Return
  | Name string | AssignName string | DelName string
  | Const | Tuple | List | Call | Comprehension | Arguments

datatype node = Node (kind: kind) (lineno: "nat option") (fields: "(string \<times> node fld) list")

text \<open>
  Node identity.  The source compares nodes with \<open>is\<close> and climbs \<open>node.parent\<close>.  A
  node of a tree is identified by the steps that lead to it from the root, the
  nearest step first: a step names the field of the parent and the index in it.
  The root is \<open>[]\<close>, and the parent of \<open>s # p\<close> is \<open>p\<close>.
\<close>

type_synonym step = "string \<times> nat"
type_synonym nid = "step list"

fun child_at :: "node \<Rightarrow> step \<Rightarrow> node option" where
  "child_at (Node k l fs) (f, i) =
     (case map_of fs f of
        None \<Rightarrow> None
      | Some (One c) \<Rightarrow> (if i = 0 then Some c else None)
      | Some (Many cs) \<Rightarrow> (if i < length cs then Some (cs ! i) else None))"

fun descend :: "node \<Rightarrow> step list \<Rightarrow> node option" where
  "descend n [] = Some n"
| "descend n (s # ss) = (case child_at n s of None \<Rightarrow> None | Some c \<Rightarrow> descend c ss)"

definition node_at :: "node \<Rightarrow> nid \<Rightarrow> node option" where
  "node_at t p = descend t (rev p)"

definition kind_at :: "node \<Rightarrow> nid \<Rightarrow> kind option" where
  "kind_at t p = map_option kind (node_at t p)"

text \<open>
  Modelled from the spec: \<open>NodeNG.locate_child\<close> (astroid/bases.py is not among the
  sources).  It returns the name of the field of \<open>node\<close> that holds \<open>child\<close>, and what the
  field holds: the child itself, or the list the child is an element of.  The analyser
  compares the second component with \<open>is\<close>; a list is identified by its node and field.
  A node that is not a child raises \<open>AstroidError\<close>.
\<close>

datatype located = Single nid | Sequence nid string

definition locate_child :: "node \<Rightarrow> nid \<Rightarrow> nid \<Rightarrow> error + (string \<times> located)" where
  "locate_child t node child =
     (case child of
        [] \<Rightarrow> Inl AstroidError
      | (f, i) # p \<Rightarrow>
          if p \<noteq> node then Inl AstroidError
          else (case node_at t node of
                  None \<Rightarrow> Inl AstroidError
                | Some n \<Rightarrow>
                    (case map_of (fields n) f of
                       None \<Rightarrow> Inl AstroidError
                     | Some (One c) \<Rightarrow>
                         (if i = 0 then Inr (f, Single child) else Inl AstroidError)
                     | Some (Many cs) \<Rightarrow>
                         (if i < length cs then Inr (f, Sequence node f) else Inl AstroidError))))"

text \<open>
  Modelled from the spec: \<open>NodeNG.nodes_of_class(Name)\<close> (astroid/bases.py), the
  \<open>Name\<close> nodes of a subtree, the node itself included; \<open>ExceptHandler.catch\<close> reads only
  their names.
\<close>

fun nodes_of_class_Name :: "node \<Rightarrow> string list" where
  "nodes_of_class_Name (Node k l fs) =
     (case k of Name x \<Rightarrow> [x] | _ \<Rightarrow> []) @
     concat (map (\<lambda>(f, c). case c of
                               One n \<Rightarrow> nodes_of_class_Name n
                             | Many ns \<Rightarrow> concat (map nodes_of_class_Name ns)) fs)"

text \<open>
  \<open>ExceptHandler.catch\<close> (node_classes.py, 805-810).  It returns \<open>True\<close>, or falls off
  its end and returns \<open>None\<close>, which the caller reads as false.  Calling it on a node of
  another class is an \<open>AttributeError\<close>.
\<close>

definition catch :: "node \<Rightarrow> nid \<Rightarrow> string list option \<Rightarrow> error + bool" where
  "catch t h exceptions =
     (case node_at t h of
        None \<Rightarrow> Inl AttributeError
      | Some n \<Rightarrow>
          if kind n \<noteq> ExceptHandler then Inl AttributeError
          else (case (map_of (fields n) ''type'', exceptions) of
                  (None, _) \<Rightarrow> Inr True
                | (_, None) \<Rightarrow> Inr True
                | (Some (One ty), Some names) \<Rightarrow>
                    Inr (list_ex (\<lambda>x. x \<in> set names) (nodes_of_class_Name ty))
                | (Some (Many tys), Some names) \<Rightarrow> Inl AttributeError))"

subsection \<open>\<open>are_exclusive\<close> (node_classes.py, 57-107)\<close>

text \<open>
  The first loop: \<open>children[node] = previous\<close> for every ancestor \<open>node\<close> of
  \<open>stmt1\<close>; the keys of \<open>children\<close> are \<open>stmt1_parents\<close>.
\<close>

fun index_parents :: "nid \<Rightarrow> (nid \<times> nid) list" where
  "index_parents [] = []"
| "index_parents (s # node) = (node, s # node) # index_parents node"

text \<open>
  The body of \<open>if node in stmt1_parents\<close>: \<open>previous\<close> is the child of \<open>node\<close> on the
  way to \<open>stmt2\<close>, \<open>child1\<close> is \<open>children[node]\<close>.
\<close>

definition exclusive_at ::
  "node \<Rightarrow> string list option \<Rightarrow> nid \<Rightarrow> nid \<Rightarrow> nid \<Rightarrow> error + bool" where
  "exclusive_at t exceptions node previous child1 =
     (case kind_at t node of
        None \<Rightarrow> Inl AstroidError
      | Some k \<Rightarrow>
          if k = If \<and> exceptions = None then
            (case locate_child t node previous of
               Inl e \<Rightarrow> Inl e
             | Inr (c2attr, c2node) \<Rightarrow>
                 (case locate_child t node child1 of
                    Inl e \<Rightarrow> Inl e
                  | Inr (c1attr, c1node) \<Rightarrow> Inr (c2node \<noteq> c1node)))
          else if k = TryExcept then
            (case locate_child t node previous of
               Inl e \<Rightarrow> Inl e
             | Inr (c2attr, c2node) \<Rightarrow>
                 (case locate_child t node child1 of
                    Inl e \<Rightarrow> Inl e
                  | Inr (c1attr, c1node) \<Rightarrow>
                      if c1node \<noteq> c2node then
                        (if c2attr = ''body'' \<and> c1attr = ''handlers'' then
                           catch t child1 exceptions
                         else if c2attr = ''handlers'' \<and> c1attr = ''body'' then
                           catch t previous exceptions
                         else Inr ((c2attr = ''handlers'' \<and> c1attr = ''orelse'') \<or>
                                   (c2attr = ''orelse'' \<and> c1attr = ''handlers'')))
                      else if c2attr = ''handlers'' \<and> c1attr = ''handlers'' then
                        Inr (previous \<noteq> child1)
                      else Inr False))
          else Inr False)"

text \<open>
  The second loop climbs from \<open>stmt2\<close>: \<open>previous\<close> is the argument, \<open>node\<close> its
  parent; the loop ends with \<open>False\<close> above the root.
\<close>

fun climb :: "node \<Rightarrow> (nid \<times> nid) list \<Rightarrow> string list option \<Rightarrow> nid \<Rightarrow> error + bool" where
  "climb t children exceptions [] = Inr False"
| "climb t children exceptions (s # node) =
     (case map_of children node of
        Some child1 \<Rightarrow> exclusive_at t exceptions node (s # node) child1
      | None \<Rightarrow> climb t children exceptions node)"

definition are_exclusive :: "node \<Rightarrow> nid \<Rightarrow> nid \<Rightarrow> string list option \<Rightarrow> error + bool" where
  "are_exclusive t stmt1 stmt2 exceptions = climb t (index_parents stmt1) exceptions stmt2"

subsection \<open>Example trees\<close>

text \<open>
  The statement \<open>try: risky() except ValueError: x = 1 else: x = 2\<close>, and the module
  that holds it.
\<close>

definition try_stmt :: node where
  "try_stmt =
     Node TryExcept (Some 1)
       [(''body'', Many [Node Expr (Some 2) [(''value'', One (Node Call (Some 2)
                             [(''func'', One (Node (Name ''risky'') (Some 2) []))]))]]),
        (''handlers'', Many
           [Node ExceptHandler (Some 3)
              [(''type'', One (Node (Name ''ValueError'') (Some 3) [])),
               (''body'', Many [Node Assign (Some 4)
                                  [(''targets'', Many [Node (AssignName ''x'') (Some 4) []]),
                                   (''value'', One (Node Const (Some 4) []))]])]]),
        (''orelse'', Many [Node Assign (Some 6)
                             [(''targets'', Many [Node (AssignName ''x'') (Some 6) []]),
                              (''value'', One (Node Const (Some 6) []))]])]"

definition try_example :: node where
  "try_example = Node Module (Some 0) [(''body'', Many [try_stmt])]"

text \<open>
  The statement \<open>try: risky() except (KeyError, OSError): x = 1 except: x = 2\<close>, and
  the module that holds it.
\<close>

definition try_stmt2 :: node where
  "try_stmt2 =
     Node TryExcept (Some 1)
       [(''body'', Many [Node Expr (Some 2) [(''value'', One (Node Call (Some 2)
                             [(''func'', One (Node (Name ''risky'') (Some 2) []))]))]]),
        (''handlers'', Many
           [Node ExceptHandler (Some 3)
              [(''type'', One (Node Tuple (Some 3)
                                [(''elts'', Many [Node (Name ''KeyError'') (Some 3) [],
                                                  Node (Name ''OSError'') (Some 3) []])])),
               (''body'', Many [Node Assign (Some 4)
                                  [(''targets'', Many [Node (AssignName ''x'') (Some 4) []]),
                                   (''value'', One (Node Const (Some 4) []))]])],
            Node ExceptHandler (Some 5)
              [(''body'', Many [Node Assign (Some 6)
                                  [(''targets'', Many [Node (AssignName ''x'') (Some 6) []]),
                                   (''value'', One (Node Const (Some 6) []))]])]]),
        (''orelse'', Many [])]"

definition try_example2 :: node where
  "try_example2 = Node Module (Some 0) [(''body'', Many [try_stmt2])]"

subsection \<open>\<open>LookupMixIn._filter_stmts\<close> (node_classes.py, 137-254)\<close>

text \<open>
  The classes of \<open>node_classes.py\<close> that derive from \<open>Statement\<close>, and the function
  and class definitions.
\<close>

definition is_statement :: "kind \<Rightarrow> bool" where
  "is_statement k =
     (case k of
        FunctionDef \<Rightarrow> True | ClassDef \<Rightarrow> True | If \<Rightarrow> True | TryExcept \<Rightarrow> True
      | TryFinally \<Rightarrow> True | ExceptHandler \<Rightarrow> True | For \<Rightarrow> True | While \<Rightarrow> True
      | With \<Rightarrow> True | Assign \<Rightarrow> True | AugAssign \<Rightarrow> True | Delete \<Rightarrow> True
      | Expr \<Rightarrow> True | Pass \<Rightarrow> True | Return \<Rightarrow> True | _ \<Rightarrow> False)"

text \<open>
  Modelled from the spec: \<open>NodeNG.statement\<close>, \<open>NodeNG.frame\<close>, \<open>node.parent\<close>,
  \<open>NodeNG.parent_of\<close> and \<open>fromlineno\<close> (astroid/bases.py is not among the sources).
  The statement of a node is the nearest statement node from the node upwards, and
  its frame the nearest module, function, class, lambda or comprehension; the module
  is its own statement and frame.  The root has no parent.  \<open>a.parent_of(b)\<close> holds
  when \<open>a\<close> is a proper ancestor of \<open>b\<close>.  The start line of a node is its line.
\<close>

fun statement :: "node \<Rightarrow> nid \<Rightarrow> nid" where
  "statement t [] = []"
| "statement t (s # p) =
     (case kind_at t (s # p) of
        Some k \<Rightarrow> if is_statement k then s # p else statement t p
      | None \<Rightarrow> statement t p)"

definition is_frame :: "kind \<Rightarrow> bool" where
  "is_frame k = (case k of Module \<Rightarrow> True | FunctionDef \<Rightarrow> True | ClassDef \<Rightarrow> True
                 | Lambda \<Rightarrow> True | GeneratorExp \<Rightarrow> True | _ \<Rightarrow> False)"

fun frame :: "node \<Rightarrow> nid \<Rightarrow> nid" where
  "frame t [] = []"
| "frame t (s # p) =
     (case kind_at t (s # p) of
        Some k \<Rightarrow> if is_frame k then s # p else frame t p
      | None \<Rightarrow> frame t p)"

definition parent :: "nid \<Rightarrow> nid option" where
  "parent p = (case p of [] \<Rightarrow> None | s # q \<Rightarrow> Some q)"

fun parent_of :: "nid \<Rightarrow> nid \<Rightarrow> bool" where
  "parent_of a [] = False"
| "parent_of a (s # p) = (a = p \<or> parent_of a p)"

definition fromlineno :: "node \<Rightarrow> nid \<Rightarrow> nat option" where
  "fromlineno t p = (case node_at t p of None \<Rightarrow> None | Some n \<Rightarrow> lineno n)"

text \<open>
  \<open>assign_type\<close>: a class with \<open>AssignTypeMixin\<close> (and \<open>Comprehension\<close>, 617-618)
  answers itself, a class with \<open>ParentAssignTypeMixin\<close> asks its parent; the scoped
  nodes that bind a name answer themselves.  A node of another class has no such
  method (\<open>has_assign_type\<close> is the \<open>hasattr\<close> of line 184).
\<close>

definition has_assign_type :: "kind \<Rightarrow> bool" where
  "has_assign_type k =
     (case k of
        Arguments \<Rightarrow> True | Assign \<Rightarrow> True | AugAssign \<Rightarrow> True | Delete \<Rightarrow> True
      | ExceptHandler \<Rightarrow> True | For \<Rightarrow> True | With \<Rightarrow> True | Comprehension \<Rightarrow> True
      | FunctionDef \<Rightarrow> True | ClassDef \<Rightarrow> True | Lambda \<Rightarrow> True
      | AssignName x \<Rightarrow> True | DelName x \<Rightarrow> True | Tuple \<Rightarrow> True | List \<Rightarrow> True
      | _ \<Rightarrow> False)"

definition asks_parent :: "kind \<Rightarrow> bool" where
  "asks_parent k =
     (case k of AssignName x \<Rightarrow> True | DelName x \<Rightarrow> True | Tuple \<Rightarrow> True | List \<Rightarrow> True
      | _ \<Rightarrow> False)"

fun assign_type :: "node \<Rightarrow> nid \<Rightarrow> error + nid" where
  "assign_type t p =
     (case kind_at t p of
        None \<Rightarrow> Inl AttributeError
      | Some k \<Rightarrow>
          if \<not> has_assign_type k then Inl AttributeError
          else if asks_parent k then
            (case p of [] \<Rightarrow> Inl AttributeError | s # q \<Rightarrow> assign_type t q)
          else Inr p)"

text \<open>\<open>optional_assign\<close> is set on \<open>For\<close> (849) and \<open>Comprehension\<close> (616).\<close>

definition optional_assign :: "node \<Rightarrow> nid \<Rightarrow> bool" where
  "optional_assign t p = (kind_at t p = Some For \<or> kind_at t p = Some Comprehension)"

text \<open>
  Modelled from the spec: \<open>has_base\<close> (rule 4 of the statement filter: the candidate
  has the lookup node as an ancestor).
\<close>

definition has_base :: "nid \<Rightarrow> nid \<Rightarrow> bool" where
  "has_base node self = parent_of self node"

text \<open>
  The narrowing hook \<open>_get_filtered_stmts\<close>.  That of \<open>Comprehension\<close> is in the
  sources (620-632).  Modelled from the spec: the hook of the other classes
  (astroid/mixins.py is not among the sources), rule 5 of the statement filter, after
  the hook of \<open>Comprehension\<close>: a binding statement that is the statement of the lookup
  ends the filter with the candidates kept so far, and a binding whose statement is
  the statement of the lookup ends it with the candidate alone.
\<close>

definition is_Const_or_Name :: "node \<Rightarrow> nid \<Rightarrow> bool" where
  "is_Const_or_Name t p =
     (case kind_at t p of Some Const \<Rightarrow> True | Some (Name x) \<Rightarrow> True | _ \<Rightarrow> False)"

definition get_filtered_stmts ::
  "node \<Rightarrow> nid \<Rightarrow> nid \<Rightarrow> nid \<Rightarrow> nid list \<Rightarrow> nid \<Rightarrow> nid list \<times> bool" where
  "get_filtered_stmts t self lookup_node node stmts mystmt =
     (if kind_at t self = Some Comprehension then
        (if self = mystmt then
           (if is_Const_or_Name t lookup_node then ([lookup_node], True) else (stmts, False))
         else if statement t self = mystmt then ([node], True)
         else (stmts, False))
      else if self = mystmt then (stmts, True)
      else if statement t self = mystmt then ([node], True)
      else (stmts, False))"

text \<open>\<open>_stmt_parents.index(stmt.parent)\<close>: the first position, if there is one.\<close>

fun index_of :: "'a \<Rightarrow> 'a list \<Rightarrow> nat option" where
  "index_of x [] = None"
| "index_of x (y # ys) = (if x = y then Some 0 else map_option Suc (index_of x ys))"

text \<open>\<open>del xs[i]\<close>.\<close>

definition del_at :: "nat \<Rightarrow> 'a list \<Rightarrow> 'a list" where
  "del_at i xs = take i xs @ drop (Suc i) xs"

text \<open>
  One turn of the loop over \<open>stmts\<close> (178-253), on the lists \<open>_stmts\<close> and
  \<open>_stmt_parents\<close>: it ends the loop (\<open>Break\<close>), goes on with the next candidate
  (\<open>Next\<close>), or raises.  A line that is missing compares as not greater.
\<close>

datatype turn = Break "nid list" | Next "nid list" "nid option list" | Raise error

definition is_AssignName :: "node \<Rightarrow> nid \<Rightarrow> bool" where
  "is_AssignName t p = (case kind_at t p of Some (AssignName x) \<Rightarrow> True | _ \<Rightarrow> False)"

definition is_DelName :: "node \<Rightarrow> nid \<Rightarrow> bool" where
  "is_DelName t p = (case kind_at t p of Some (DelName x) \<Rightarrow> True | _ \<Rightarrow> False)"

definition filter_last ::
  "node \<Rightarrow> nid \<Rightarrow> nid \<Rightarrow> nid \<Rightarrow> nid \<Rightarrow> bool \<Rightarrow> nid list \<Rightarrow> nid option list \<Rightarrow> turn" where
  "filter_last t self mystmt node stmt optional stmts0 parents0 =
     (let cleared = is_AssignName t node \<and> \<not> optional \<and> parent stmt = parent mystmt;
          stmts1 = (if cleared then [] else stmts0);
          parents1 = (if cleared then [] else parents0)
      in if \<not> is_AssignName t node \<and> is_DelName t node then Next [] []
         else (case are_exclusive t self node None of
                 Inl e \<Rightarrow> Raise e
               | Inr True \<Rightarrow> Next stmts1 parents1
               | Inr False \<Rightarrow> Next (stmts1 @ [node]) (parents1 @ [parent stmt])))"

text \<open>
  The branch \<open>try: pindex = _stmt_parents.index(stmt.parent)\<close> (210-242): what is
  left of the two lists, or \<open>None\<close> at \<open>continue\<close>.
\<close>

definition filter_level ::
  "node \<Rightarrow> nid \<Rightarrow> nid \<Rightarrow> nid \<Rightarrow> bool \<Rightarrow> nid list \<Rightarrow> nid option list \<Rightarrow>
   error + (nid list \<times> nid option list) option" where
  "filter_level t node stmt atype optional stmts0 parents0 =
     (case index_of (parent stmt) parents0 of
        None \<Rightarrow> Inr (Some (stmts0, parents0))
      | Some pindex \<Rightarrow>
          if \<not> pindex < length stmts0 then Inl IndexError
          else
            (case assign_type t (stmts0 ! pindex) of
               Inl e \<Rightarrow> Inl e
             | Inr ptype \<Rightarrow>
                 if parent_of ptype atype then Inr None
                 else if optional then Inr (Some (stmts0, parents0))
                 else
                   (case are_exclusive t (stmts0 ! pindex) node None of
                      Inl e \<Rightarrow> Inl e
                    | Inr True \<Rightarrow> Inr (Some (stmts0, parents0))
                    | Inr False \<Rightarrow> Inr (Some (del_at pindex stmts0, del_at pindex parents0)))))"

definition filter_turn ::
  "node \<Rightarrow> nid \<Rightarrow> nid \<Rightarrow> int \<Rightarrow> nid \<Rightarrow> nid list \<Rightarrow> nid option list \<Rightarrow> turn" where
  "filter_turn t self mystmt mylineno node stmts0 parents0 =
     (let stmt = statement t node
      in if mylineno > 0 \<and> (case fromlineno t stmt of None \<Rightarrow> False | Some l \<Rightarrow> int l > mylineno)
         then Break stmts0
         else
           (case (case kind_at t node of
                    None \<Rightarrow> Inl AssertionError
                  | Some k \<Rightarrow> if has_assign_type k then assign_type t node else Inl AssertionError) of
              Inl e \<Rightarrow> Raise e
            | Inr atype \<Rightarrow>
                if has_base node self then Break stmts0
                else
                  (case get_filtered_stmts t atype self node stmts0 mystmt of
                     (stmts1, done) \<Rightarrow>
                       if done then Break stmts1
                       else if optional_assign t atype \<and> parent_of atype self
                         then Next [node] [parent stmt]
                       else
                         (case filter_level t node stmt atype (optional_assign t atype) stmts1 parents0 of
                            Inl e \<Rightarrow> Raise e
                          | Inr None \<Rightarrow> Next stmts1 parents0
                          | Inr (Some (stmts2, parents2)) \<Rightarrow>
                              filter_last t self mystmt node stmt (optional_assign t atype)
                                stmts2 parents2))))"

fun filter_loop ::
  "node \<Rightarrow> nid \<Rightarrow> nid \<Rightarrow> int \<Rightarrow> nid list \<Rightarrow> nid list \<Rightarrow> nid option list \<Rightarrow> error + nid list" where
  "filter_loop t self mystmt mylineno [] stmts0 parents0 = Inr stmts0"
| "filter_loop t self mystmt mylineno (node # rest) stmts0 parents0 =
     (case filter_turn t self mystmt mylineno node stmts0 parents0 of
        Break stmts1 \<Rightarrow> Inr stmts1
      | Raise e \<Rightarrow> Inl e
      | Next stmts1 parents1 \<Rightarrow> filter_loop t self mystmt mylineno rest stmts1 parents1)"

text \<open>
  \<open>_filter_stmts\<close> itself.  With \<open>offset == -1\<close> the frame is that of the parent of
  the node's frame, and a module has no parent.
\<close>

definition filter_stmts :: "node \<Rightarrow> nid \<Rightarrow> nid list \<Rightarrow> nid \<Rightarrow> int \<Rightarrow> error + nid list" where
  "filter_stmts t self stmts frm offset =
     (case (if offset = - 1 then
              (case frame t self of [] \<Rightarrow> Inl AttributeError | s # q \<Rightarrow> Inr (frame t q))
            else
              (let myframe = frame t self
               in if statement t self = myframe \<and> myframe \<noteq> [] then Inr (frame t (tl myframe))
                  else Inr myframe)) of
        Inl e \<Rightarrow> Inl e
      | Inr myframe \<Rightarrow>
          if myframe \<noteq> frm \<or> self = frm then Inr stmts
          else
            (let mystmt = statement t self;
                 mylineno = (case fromlineno t mystmt of
                               Some l \<Rightarrow> int l + offset
                             | None \<Rightarrow> 0)
             in filter_loop t self mystmt mylineno stmts [] []))"

text \<open>
  The module
  \<open>x = 0\<close> / \<open>for x in b: pass\<close> / \<open>x = 1\<close> / \<open>if c: print(x)\<close>.
\<close>

definition loop_example :: node where
  "loop_example =
     Node Module (Some 0)
       [(''body'', Many
          [Node Assign (Some 1)
             [(''targets'', Many [Node (AssignName ''x'') (Some 1) []]),
              (''value'', One (Node Const (Some 1) []))],
           Node For (Some 2)
             [(''target'', One (Node (AssignName ''x'') (Some 2) [])),
              (''iter'', One (Node (Name ''b'') (Some 2) [])),
              (''body'', Many [Node Pass (Some 3) []])],
           Node Assign (Some 4)
             [(''targets'', Many [Node (AssignName ''x'') (Some 4) []]),
              (''value'', One (Node Const (Some 4) []))],
           Node If (Some 5)
             [(''test'', One (Node (Name ''c'') (Some 5) [])),
              (''body'', Many [Node Expr (Some 6)
                 [(''value'', One (Node Call (Some 6)
                     [(''func'', One (Node (Name ''print'') (Some 6) [])),
                      (''args'', Many [Node (Name ''x'') (Some 6) []])]))]])]])]"

section \<open>Properties of the mutual-exclusivity analysis\<close>


lemma map_of_index_parents:
  "map_of (index_parents p) q =
     (if strict_suffix q p then Some (drop (length p - length q - 1) p) else None)"
proof (induction p)
  case Nil
  then show ?case by simp
next
  case (Cons s p)
  show ?case
  proof (cases "q = p")
    case True
    then show ?thesis by (simp add: strict_suffix_def suffix_Cons)
  next
    case False
    have "strict_suffix q (s # p) = strict_suffix q p"
      using False by (auto simp: strict_suffix_def suffix_Cons dest: suffix_length_le)
    moreover have "strict_suffix q p \<Longrightarrow> length q < length p"
      by (metis suffix_length_less)
    ultimately show ?thesis
      using False Cons.IH by (auto simp: drop_Cons' Suc_diff_Suc)
  qed
qed


lemma locate_child_error:
  "locate_child t node c = Inl e \<Longrightarrow> e = AstroidError"
  by (auto simp: locate_child_def split: list.splits option.splits fld.splits if_splits)

lemma exclusive_at_located:
  "kind_at t node = Some k \<Longrightarrow> locate_child t node a = Inr (fa, la) \<Longrightarrow>
   locate_child t node b = Inr (fb, lb) \<Longrightarrow>
   exclusive_at t exc node a b =
     (if k = If \<and> exc = None then Inr (la \<noteq> lb)
      else if k = TryExcept then
        (if lb \<noteq> la then
           (if fa = ''body'' \<and> fb = ''handlers'' then catch t b exc
            else if fa = ''handlers'' \<and> fb = ''body'' then catch t a exc
            else Inr ((fa = ''handlers'' \<and> fb = ''orelse'') \<or>
                      (fa = ''orelse'' \<and> fb = ''handlers'')))
         else if fa = ''handlers'' \<and> fb = ''handlers'' then Inr (a \<noteq> b)
         else Inr False)
      else Inr False)"
  by (simp add: exclusive_at_def)

lemma exclusive_at_sym:
  "exclusive_at t exc node a b = exclusive_at t exc node b a"
proof (cases "kind_at t node")
  case None
  then show ?thesis by (simp add: exclusive_at_def)
next
  case (Some k)
  show ?thesis
  proof (cases "locate_child t node a")
    case (Inl e)
    then show ?thesis using Some
      by (cases "locate_child t node b") (auto simp: exclusive_at_def dest: locate_child_error)
  next
    case (Inr ra)
    show ?thesis
    proof (cases "locate_child t node b")
      case (Inl e)
      then show ?thesis using Some Inr by (auto simp: exclusive_at_def dest: locate_child_error)
    next
      case Inrb: (Inr rb)
      obtain fa la where ra: "ra = (fa, la)" by (cases ra)
      obtain fb lb where rb: "rb = (fb, lb)" by (cases rb)
      have 1: "exclusive_at t exc node a b =
     (if k = If \<and> exc = None then Inr (la \<noteq> lb)
      else if k = TryExcept then
        (if lb \<noteq> la then
           (if fa = ''body'' \<and> fb = ''handlers'' then catch t b exc
            else if fa = ''handlers'' \<and> fb = ''body'' then catch t a exc
            else Inr ((fa = ''handlers'' \<and> fb = ''orelse'') \<or>
                      (fa = ''orelse'' \<and> fb = ''handlers'')))
         else if fa = ''handlers'' \<and> fb = ''handlers'' then Inr (a \<noteq> b)
         else Inr False)
      else Inr False)"
        using Some Inr Inrb ra rb by (intro exclusive_at_located) simp_all
      have 2: "exclusive_at t exc node b a =
     (if k = If \<and> exc = None then Inr (lb \<noteq> la)
      else if k = TryExcept then
        (if la \<noteq> lb then
           (if fb = ''body'' \<and> fa = ''handlers'' then catch t a exc
            else if fb = ''handlers'' \<and> fa = ''body'' then catch t b exc
            else Inr ((fb = ''handlers'' \<and> fa = ''orelse'') \<or>
                      (fb = ''orelse'' \<and> fa = ''handlers'')))
         else if fb = ''handlers'' \<and> fa = ''handlers'' then Inr (b \<noteq> a)
         else Inr False)
      else Inr False)"
        using Some Inr Inrb ra rb by (intro exclusive_at_located) simp_all
      have bh: "\<not> (fa = ''body'' \<and> fa = ''handlers'')" by simp
      show ?thesis unfolding 1 2
        by (cases "la = lb"; cases "fa = ''body''"; cases "fb = ''body''";
            cases "fa = ''handlers''"; cases "fb = ''handlers''") (auto simp del: One_nat_def)
    qed
  qed
qed


lemma climb_no_parents: "climb t [] exc p = Inr False"
  by (induction p) simp_all

lemma climb_Cons:
  "climb t (index_parents p1) exc (s # q) =
     (if strict_suffix q p1
      then exclusive_at t exc q (s # q) (drop (length p1 - length q - 1) p1)
      else climb t (index_parents p1) exc q)"
  by (simp add: map_of_index_parents)

lemma climb_sym:
  "climb t (index_parents p1) exc p2 = climb t (index_parents p2) exc p1"
proof (induction "length p1 + length p2" arbitrary: p1 p2 rule: less_induct)
  case less
  show ?case
  proof (cases p1)
    case Nil
    then show ?thesis by (simp add: climb_no_parents)
  next
    case p1: (Cons s1 q1)
    show ?thesis
    proof (cases p2)
      case Nil
      then show ?thesis by (simp add: climb_no_parents)
    next
      case p2: (Cons s2 q2)
      have ih1: "climb t (index_parents q1) exc p2 = climb t (index_parents p2) exc q1"
        using less [of q1 p2] p1 by simp
      have ih2: "climb t (index_parents p1) exc q2 = climb t (index_parents q2) exc p1"
        using less [of p1 q2] p2 by simp
      have ih3: "climb t (index_parents q1) exc q2 = climb t (index_parents q2) exc q1"
        using less [of q1 q2] p1 p2 by simp
      have s21: "strict_suffix q2 p1 = suffix q2 q1"
        by (auto simp: p1 strict_suffix_def suffix_Cons dest: suffix_length_le)
      have s12: "strict_suffix q1 p2 = suffix q1 q2"
        by (auto simp: p2 strict_suffix_def suffix_Cons dest: suffix_length_le)
      consider (eq) "q1 = q2" | (lt) "strict_suffix q2 q1" | (gt) "strict_suffix q1 q2"
        | (no) "\<not> suffix q2 q1" "\<not> suffix q1 q2"
        by (auto simp: strict_suffix_def)
      then show ?thesis
      proof cases
        case eq
        then show ?thesis
          unfolding p1 p2 climb_Cons
          by (simp add: strict_suffix_def suffix_Cons exclusive_at_sym [of t exc q2 "s2 # q2"])
      next
        case lt
        then have len: "length q2 < length q1" by (metis suffix_length_less)
        have n: "\<not> suffix q1 q2" using lt by (auto simp: strict_suffix_def dest: suffix_order.antisym)
        have "climb t (index_parents p1) exc p2 =
                exclusive_at t exc q2 p2 (drop (length q1 - length q2 - 1) q1)"
          unfolding p2 climb_Cons using lt len s21 by (simp add: p1 strict_suffix_def drop_Cons' Suc_diff_Suc)
        moreover have "climb t (index_parents q1) exc p2 =
                exclusive_at t exc q2 p2 (drop (length q1 - length q2 - 1) q1)"
          unfolding p2 climb_Cons using lt by simp
        moreover have "climb t (index_parents p2) exc p1 = climb t (index_parents p2) exc q1"
          unfolding p1 climb_Cons using n s12 by simp
        ultimately show ?thesis using ih1 by simp
      next
        case gt
        then have len: "length q1 < length q2" by (metis suffix_length_less)
        have n: "\<not> suffix q2 q1" using gt by (auto simp: strict_suffix_def dest: suffix_order.antisym)
        have "climb t (index_parents p2) exc p1 =
                exclusive_at t exc q1 p1 (drop (length q2 - length q1 - 1) q2)"
          unfolding p1 climb_Cons using gt len s12 by (simp add: p2 strict_suffix_def drop_Cons' Suc_diff_Suc)
        moreover have "climb t (index_parents q2) exc p1 =
                exclusive_at t exc q1 p1 (drop (length q2 - length q1 - 1) q2)"
          unfolding p1 climb_Cons using gt by simp
        moreover have "climb t (index_parents p1) exc p2 = climb t (index_parents p1) exc q2"
          unfolding p2 climb_Cons using n s21 by simp
        ultimately show ?thesis using ih2 by simp
      next
        case no
        have a: "climb t (index_parents p1) exc p2 = climb t (index_parents p1) exc q2"
          unfolding p2 climb_Cons using no s21 by simp
        have b: "climb t (index_parents p2) exc p1 = climb t (index_parents p2) exc q1"
          unfolding p1 climb_Cons using no s12 by simp
        have c: "climb t (index_parents q2) exc p1 = climb t (index_parents q2) exc q1"
          unfolding p1 climb_Cons using no by (simp add: strict_suffix_def)
        have d: "climb t (index_parents q1) exc p2 = climb t (index_parents q1) exc q2"
          unfolding p2 climb_Cons using no by (simp add: strict_suffix_def)
        show ?thesis using a b c d ih1 ih2 ih3 by simp
      qed
    qed
  qed
qed

text \<open>
  Claim C5.  For every pair of nodes \<open>a\<close> and \<open>b\<close> of a tree and every value of the
  exception names, \<open>are_exclusive(a, b)\<close> and \<open>are_exclusive(b, a)\<close> give the same
  result (the same boolean, or the same exception).
\<close>

theorem are_exclusive_symmetric:
  "are_exclusive t a b exceptions = are_exclusive t b a exceptions"
  unfolding are_exclusive_def by (rule climb_sym)


lemma suffix_same_tail:
  "suffix (pb @ sb # tr) (pa @ sa # tr) \<Longrightarrow> sa = sb"
proof -
  assume "suffix (pb @ sb # tr) (pa @ sa # tr)"
  then obtain zs where "pa @ sa # tr = zs @ pb @ sb # tr" by (auto simp: suffix_def)
  then have "(pa @ [sa]) @ tr = (zs @ pb @ [sb]) @ tr" by simp
  then have "pa @ [sa] = zs @ pb @ [sb]" by (simp only: same_append_eq append_same_eq)
  then have "last (pa @ [sa]) = last (zs @ pb @ [sb])" by simp
  then show ?thesis by simp
qed

lemma climb_down:
  "sa \<noteq> sb \<or> pa = [] \<Longrightarrow>
   climb t (index_parents (pa @ sa # tr)) exc (pb @ sb # tr) =
     exclusive_at t exc tr (sb # tr) (sa # tr)"
proof (induction pb)
  case Nil
  have "strict_suffix tr (pa @ sa # tr)"
    by (auto simp: strict_suffix_def suffix_def)
  then show ?case by (simp del: climb.simps add: climb_Cons)
next
  case (Cons x pb)
  have "\<not> strict_suffix (pb @ sb # tr) (pa @ sa # tr)"
  proof
    assume s: "strict_suffix (pb @ sb # tr) (pa @ sa # tr)"
    then have "sa = sb" by (auto simp: strict_suffix_def dest: suffix_same_tail)
    with Cons.prems have pa: "pa = []" by simp
    from s have "length (pb @ sb # tr) \<le> length (pa @ sa # tr)"
      by (auto simp: strict_suffix_def dest: suffix_length_le)
    with pa have "pb = []" by simp
    with s pa \<open>sa = sb\<close> show False by (simp add: strict_suffix_def)
  qed
  then show ?case using Cons by (simp del: climb.simps add: climb_Cons)
qed

lemma climb_reach:
  assumes "sa \<noteq> sb \<or> pa = [] \<or> pb = []"
  shows "climb t (index_parents (pa @ sa # tr)) exc (pb @ sb # tr) =
           exclusive_at t exc tr (sb # tr) (sa # tr)"
proof (cases "pb = []")
  case True
  have "strict_suffix tr (pa @ sa # tr)"
    by (auto simp: strict_suffix_def suffix_def)
  then show ?thesis using True by (simp del: climb.simps add: climb_Cons)
next
  case False
  with assms show ?thesis by (intro climb_down) simp
qed


lemma locate_child_Many:
  "node_at t tr = Some n \<Longrightarrow> map_of (fields n) f = Some (Many cs) \<Longrightarrow> i < length cs \<Longrightarrow>
   locate_child t tr ((f, i) # tr) = Inr (f, Sequence tr f)"
  by (simp add: locate_child_def)

text \<open>
  Where the climb from two nodes meets at a \<open>TryExcept\<close> node, the answer is the one
  of \<open>exclusive_at\<close> there, with the handler's \<open>catch\<close> still to be evaluated.
\<close>

lemma are_exclusive_at_TryExcept:
  assumes "node_at t tr = Some n" and "kind n = TryExcept"
    and "map_of (fields n) fa = Some (Many ca)" and "ia < length ca"
    and "map_of (fields n) fb = Some (Many cb)" and "ib < length cb"
    and "(fa, ia) \<noteq> (fb, ib) \<or> pa = [] \<or> pb = []"
  shows "are_exclusive t (pa @ (fa, ia) # tr) (pb @ (fb, ib) # tr) exceptions =
           (if fa = ''handlers'' \<and> fb = ''body'' then catch t ((fa, ia) # tr) exceptions
            else if fa = ''body'' \<and> fb = ''handlers'' then catch t ((fb, ib) # tr) exceptions
            else if (fa = ''handlers'' \<and> fb = ''orelse'') \<or> (fa = ''orelse'' \<and> fb = ''handlers'')
              then Inr True
            else if fa = ''handlers'' \<and> fb = ''handlers'' then Inr (ia \<noteq> ib)
            else Inr False)"
proof -
  have k: "kind_at t tr = Some TryExcept"
    using assms(1,2) by (simp add: kind_at_def)
  have la: "locate_child t tr ((fa, ia) # tr) = Inr (fa, Sequence tr fa)"
    using assms(1,3,4) by (rule locate_child_Many)
  have lb: "locate_child t tr ((fb, ib) # tr) = Inr (fb, Sequence tr fb)"
    using assms(1,5,6) by (rule locate_child_Many)
  have "are_exclusive t (pa @ (fa, ia) # tr) (pb @ (fb, ib) # tr) exceptions =
          exclusive_at t exceptions tr ((fb, ib) # tr) ((fa, ia) # tr)"
    unfolding are_exclusive_def using assms(7) by (rule climb_reach)
  also have "\<dots> =
     (if TryExcept = If \<and> exceptions = None then Inr (Sequence tr fb \<noteq> Sequence tr fa)
      else if TryExcept = TryExcept then
        (if Sequence tr fa \<noteq> Sequence tr fb then
           (if fb = ''body'' \<and> fa = ''handlers'' then catch t ((fa, ia) # tr) exceptions
            else if fb = ''handlers'' \<and> fa = ''body'' then catch t ((fb, ib) # tr) exceptions
            else Inr ((fb = ''handlers'' \<and> fa = ''orelse'') \<or>
                      (fb = ''orelse'' \<and> fa = ''handlers'')))
         else if fb = ''handlers'' \<and> fa = ''handlers'' then Inr ((fb, ib) # tr \<noteq> (fa, ia) # tr)
         else Inr False)
      else Inr False)"
    using k lb la by (rule exclusive_at_located)
  also have "\<dots> =
           (if fa = ''handlers'' \<and> fb = ''body'' then catch t ((fa, ia) # tr) exceptions
            else if fa = ''body'' \<and> fb = ''handlers'' then catch t ((fb, ib) # tr) exceptions
            else if (fa = ''handlers'' \<and> fb = ''orelse'') \<or> (fa = ''orelse'' \<and> fb = ''handlers'')
              then Inr True
            else if fa = ''handlers'' \<and> fb = ''handlers'' then Inr (ia \<noteq> ib)
            else Inr False)"
    by (cases "fa = fb"; cases "fa = ''body''"; cases "fb = ''body''";
        cases "fa = ''handlers''"; cases "fb = ''handlers''") (auto simp del: One_nat_def)
  finally show ?thesis .
qed

lemma descend_snoc:
  "descend t (xs @ [s]) = (case descend t xs of None \<Rightarrow> None | Some m \<Rightarrow> child_at m s)"
  by (induction xs arbitrary: t) (auto split: option.splits)

lemma node_at_child:
  "node_at t tr = Some n \<Longrightarrow> map_of (fields n) f = Some (Many cs) \<Longrightarrow> i < length cs \<Longrightarrow>
   node_at t ((f, i) # tr) = Some (cs ! i)"
  by (cases n) (simp add: node_at_def descend_snoc)

lemma catch_handler:
  assumes "node_at t h = Some hn" and "kind hn = ExceptHandler"
    and "\<forall>tys. map_of (fields hn) ''type'' \<noteq> Some (Many tys)"
  shows "catch t h exceptions =
           Inr (case (map_of (fields hn) ''type'', exceptions) of
                  (Some (One ty), Some names) \<Rightarrow> \<exists>x \<in> set (nodes_of_class_Name ty). x \<in> set names
                | _ \<Rightarrow> True)"
  using assms by (auto simp: catch_def list_ex_iff split: option.splits fld.splits)


lemma try_example_at: "node_at try_example [(''body'', 0)] = Some try_stmt"
  by (simp add: node_at_def try_example_def try_stmt_def)

lemma try_example2_at: "node_at try_example2 [(''body'', 0)] = Some try_stmt2"
  by (simp add: node_at_def try_example2_def)

lemma try_stmt_handlers:
  "map_of (fields try_stmt) ''handlers'' = Some (Many hs) \<Longrightarrow> h \<in> set hs \<Longrightarrow>
   kind h = ExceptHandler \<and> (\<forall>tys. map_of (fields h) ''type'' \<noteq> Some (Many tys))"
  by (auto simp: try_stmt_def)

lemma try_stmt2_handlers:
  "map_of (fields try_stmt2) ''handlers'' = Some (Many hs) \<Longrightarrow> h \<in> set hs \<Longrightarrow>
   kind h = ExceptHandler \<and> (\<forall>tys. map_of (fields h) ''type'' \<noteq> Some (Many tys))"
  by (auto simp: try_stmt2_def)

text \<open>
  Claim C6.  Let the climb from two nodes meet at a \<open>TryExcept\<close> node \<open>tr\<close> whose
  handlers are \<open>ExceptHandler\<close> nodes (each with one expression as its \<open>type\<close>, or
  none): one node lies under (or is) the child \<open>ia\<close> of
  its field \<open>fa\<close>, the other under (or is) the child \<open>ib\<close> of its field \<open>fb\<close>, and the
  two children differ unless one of the nodes is the child itself.  Then
  \<open>are_exclusive\<close> returns without error, and its answer is:

    \<^item> body against handler: true when no exception names are given or the handler is
      bare (it has no \<open>type\<close>); otherwise true exactly when some \<open>Name\<close> node under
      the handler's \<open>type\<close> is among the names;
    \<^item> handler against \<open>orelse\<close>: true;
    \<^item> handler against handler: true exactly when the two handlers are distinct;
    \<^item> every other pair (body against \<open>orelse\<close>, two statements of one branch): false.
\<close>

theorem are_exclusive_TryExcept:
  assumes at: "node_at t tr = Some n" and k: "kind n = TryExcept"
    and hw: "\<And>hs h. map_of (fields n) ''handlers'' = Some (Many hs) \<Longrightarrow> h \<in> set hs \<Longrightarrow>
           kind h = ExceptHandler \<and> (\<forall>tys. map_of (fields h) ''type'' \<noteq> Some (Many tys))"
    and fa: "map_of (fields n) fa = Some (Many ca)" and ia: "ia < length ca"
    and fb: "map_of (fields n) fb = Some (Many cb)" and ib: "ib < length cb"
    and ne: "(fa, ia) \<noteq> (fb, ib) \<or> pa = [] \<or> pb = []"
  shows "are_exclusive t (pa @ (fa, ia) # tr) (pb @ (fb, ib) # tr) exceptions =
           Inr (if fa = ''handlers'' \<and> fb = ''body'' then
                  (case (map_of (fields (ca ! ia)) ''type'', exceptions) of
                     (Some (One ty), Some names) \<Rightarrow> \<exists>x \<in> set (nodes_of_class_Name ty). x \<in> set names
                   | _ \<Rightarrow> True)
                else if fa = ''body'' \<and> fb = ''handlers'' then
                  (case (map_of (fields (cb ! ib)) ''type'', exceptions) of
                     (Some (One ty), Some names) \<Rightarrow> \<exists>x \<in> set (nodes_of_class_Name ty). x \<in> set names
                   | _ \<Rightarrow> True)
                else if (fa = ''handlers'' \<and> fb = ''orelse'') \<or> (fa = ''orelse'' \<and> fb = ''handlers'')
                  then True
                else if fa = ''handlers'' \<and> fb = ''handlers'' then ia \<noteq> ib
                else False)"
proof -
  note base = are_exclusive_at_TryExcept [OF at k fa ia fb ib ne, of exceptions]
  show ?thesis
  proof (cases "fa = ''handlers'' \<and> fb = ''body''")
    case True
    then have h: "ca ! ia \<in> set ca" "map_of (fields n) ''handlers'' = Some (Many ca)"
      using fa ia by auto
    have wf: "kind (ca ! ia) = ExceptHandler"
      "\<forall>tys. map_of (fields (ca ! ia)) ''type'' \<noteq> Some (Many tys)"
      using hw [OF h(2) h(1)] by auto
    have at: "node_at t ((fa, ia) # tr) = Some (ca ! ia)"
      using at fa ia by (rule node_at_child)
    show ?thesis unfolding base using True catch_handler [OF at wf, of exceptions]
      by simp
  next
    case nhb: False
    show ?thesis
    proof (cases "fa = ''body'' \<and> fb = ''handlers''")
      case True
      then have h: "cb ! ib \<in> set cb" "map_of (fields n) ''handlers'' = Some (Many cb)"
        using fb ib by auto
      have wf: "kind (cb ! ib) = ExceptHandler"
        "\<forall>tys. map_of (fields (cb ! ib)) ''type'' \<noteq> Some (Many tys)"
        using hw [OF h(2) h(1)] by auto
      have at: "node_at t ((fb, ib) # tr) = Some (cb ! ib)"
        using at fb ib by (rule node_at_child)
      show ?thesis unfolding base using True catch_handler [OF at wf, of exceptions]
        by simp
    next
      case False
      then show ?thesis unfolding base using nhb by auto
    qed
  qed
qed

text \<open>
  In \<open>try: risky() except ValueError: x = 1 else: x = 2\<close> the two bindings of \<open>x\<close>
  are exclusive; the call in the body and the binding in the handler are exclusive
  when no names are given and for \<open>ValueError\<close>, and not for \<open>KeyError\<close>.  In
  \<open>try: risky() except (KeyError, OSError): x = 1 except: x = 2\<close> the body and the first
  handler are exclusive for \<open>OSError\<close> and not for \<open>ValueError\<close>, the body and the bare
  handler are exclusive for \<open>ValueError\<close>, the two handlers are exclusive, and a handler
  is not exclusive with a statement of its own body.
\<close>

theorem are_exclusive_TryExcept_witness:
  "are_exclusive try_example
     [(''targets'', 0), (''body'', 0), (''handlers'', 0), (''body'', 0)]
     [(''targets'', 0), (''orelse'', 0), (''body'', 0)] None = Inr True \<and>
   are_exclusive try_example
     [(''body'', 0), (''body'', 0)]
     [(''targets'', 0), (''body'', 0), (''handlers'', 0), (''body'', 0)] None = Inr True \<and>
   are_exclusive try_example
     [(''body'', 0), (''body'', 0)]
     [(''targets'', 0), (''body'', 0), (''handlers'', 0), (''body'', 0)] (Some [''KeyError'']) = Inr False \<and>
   are_exclusive try_example
     [(''body'', 0), (''body'', 0)]
     [(''targets'', 0), (''body'', 0), (''handlers'', 0), (''body'', 0)] (Some [''ValueError'']) = Inr True \<and>
   are_exclusive try_example2
     [(''targets'', 0), (''body'', 0), (''handlers'', 0), (''body'', 0)]
     [(''body'', 0), (''body'', 0)] (Some [''OSError'']) = Inr True \<and>
   are_exclusive try_example2
     [(''targets'', 0), (''body'', 0), (''handlers'', 0), (''body'', 0)]
     [(''body'', 0), (''body'', 0)] (Some [''ValueError'']) = Inr False \<and>
   are_exclusive try_example2
     [(''body'', 0), (''body'', 0)]
     [(''targets'', 0), (''body'', 0), (''handlers'', 1), (''body'', 0)] (Some [''ValueError'']) = Inr True \<and>
   are_exclusive try_example2
     [(''targets'', 0), (''body'', 0), (''handlers'', 0), (''body'', 0)]
     [(''targets'', 0), (''body'', 0), (''handlers'', 1), (''body'', 0)] (Some [''ValueError'']) = Inr True \<and>
   are_exclusive try_example2
     [(''handlers'', 0), (''body'', 0)]
     [(''targets'', 0), (''body'', 0), (''handlers'', 0), (''body'', 0)] None = Inr False"
  using are_exclusive_TryExcept [OF try_example_at _ try_stmt_handlers, where fa = "''handlers''" and ia = 0 and fb = "''orelse''" and ib = 0
          and pa = "[(''targets'', 0), (''body'', 0)]" and pb = "[(''targets'', 0)]" and exceptions = "None"]
        are_exclusive_TryExcept [OF try_example_at _ try_stmt_handlers, where fa = "''body''" and ia = 0 and fb = "''handlers''" and ib = 0
          and pa = "[]" and pb = "[(''targets'', 0), (''body'', 0)]" and exceptions = "None"]
        are_exclusive_TryExcept [OF try_example_at _ try_stmt_handlers, where fa = "''body''" and ia = 0 and fb = "''handlers''" and ib = 0
          and pa = "[]" and pb = "[(''targets'', 0), (''body'', 0)]" and exceptions = "Some [''KeyError'']"]
        are_exclusive_TryExcept [OF try_example_at _ try_stmt_handlers, where fa = "''body''" and ia = 0 and fb = "''handlers''" and ib = 0
          and pa = "[]" and pb = "[(''targets'', 0), (''body'', 0)]" and exceptions = "Some [''ValueError'']"]
        are_exclusive_TryExcept [OF try_example2_at _ try_stmt2_handlers, where fa = "''handlers''" and ia = 0 and fb = "''body''" and ib = 0
          and pa = "[(''targets'', 0), (''body'', 0)]" and pb = "[]" and exceptions = "Some [''OSError'']"]
        are_exclusive_TryExcept [OF try_example2_at _ try_stmt2_handlers, where fa = "''handlers''" and ia = 0 and fb = "''body''" and ib = 0
          and pa = "[(''targets'', 0), (''body'', 0)]" and pb = "[]" and exceptions = "Some [''ValueError'']"]
        are_exclusive_TryExcept [OF try_example2_at _ try_stmt2_handlers, where fa = "''body''" and ia = 0 and fb = "''handlers''" and ib = 1
          and pa = "[]" and pb = "[(''targets'', 0), (''body'', 0)]" and exceptions = "Some [''ValueError'']"]
        are_exclusive_TryExcept [OF try_example2_at _ try_stmt2_handlers, where fa = "''handlers''" and ia = 0 and fb = "''handlers''" and ib = 1
          and pa = "[(''targets'', 0), (''body'', 0)]" and pb = "[(''targets'', 0), (''body'', 0)]" and exceptions = "Some [''ValueError'']"]
        are_exclusive_TryExcept [OF try_example2_at _ try_stmt2_handlers, where fa = "''handlers''" and ia = 0 and fb = "''handlers''" and ib = 0
          and pa = "[]" and pb = "[(''targets'', 0), (''body'', 0)]" and exceptions = "None"]
  by (simp add: try_stmt_def try_stmt2_def)

section \<open>Properties of the statement filter\<close>

text \<open>
  Claim C9 fails on the module
  \<open>x = 0\<close> / \<open>for x in b: pass\<close> / \<open>x = 1\<close> / \<open>if c: print(x)\<close>, for the \<open>x\<close> of
  \<open>print(x)\<close> and the three bindings of \<open>x\<close>.  The loop variable is optional and
  keeps \<open>x = 0\<close>; at \<open>x = 1\<close>, \<open>_stmt_parents.index(stmt.parent)\<close> finds the first
  candidate of the module body, \<open>x = 0\<close>, and only that one is dropped, so the filter
  returns the loop variable and \<open>x = 1\<close>.  Applied to that result, the first candidate
  of the module body is the loop variable, which \<open>x = 1\<close> drops: the filter returns
  \<open>x = 1\<close> alone.
\<close>

theorem filter_stmts_not_idempotent:
  "filter_stmts loop_example [(''args'', 0), (''value'', 0), (''body'', 0), (''body'', 3)]
     [[(''targets'', 0), (''body'', 0)], [(''target'', 0), (''body'', 1)], [(''targets'', 0), (''body'', 2)]]
     [] 0 =
   Inr [[(''target'', 0), (''body'', 1)], [(''targets'', 0), (''body'', 2)]] \<and>
   filter_stmts loop_example [(''args'', 0), (''value'', 0), (''body'', 0), (''body'', 3)]
     [[(''target'', 0), (''body'', 1)], [(''targets'', 0), (''body'', 2)]]
     [] 0 =
   Inr [[(''targets'', 0), (''body'', 2)]]"
  by code_simp

text \<open>The second application does not return the sequence it was given.\<close>

theorem filter_stmts_not_idempotent_witness:
  "filter_stmts loop_example [(''args'', 0), (''value'', 0), (''body'', 0), (''body'', 3)]
     [[(''target'', 0), (''body'', 1)], [(''targets'', 0), (''body'', 2)]]
     [] 0 \<noteq>
   Inr [[(''target'', 0), (''body'', 1)], [(''targets'', 0), (''body'', 2)]]"
  using filter_stmts_not_idempotent by simp

section \<open>Properties of the inference rules\<close>

lemmas infer_defs = infer_node_def path_wrapper_def context_or_new_def push_def signature_of_def
  new_context_def infer_name_def infer_ass_def infer_stmts_def Let_def
  infer_end_def infer_default_def

text \<open>
  Claim C4.  For a \<open>Name\<close> node whose lookup returns no statement, the rule
  \<open>infer_name\<close> raises \<open>UnresolvableName\<close> for its name, whatever the context: the
  sequence yields nothing and ends with that exception.  So does \<open>infer\<close> on the node,
  in every context in which the node is not already under inference (a new context is
  one).
\<close>

theorem infer_name_unbound:
  assumes "self < length (nodes P)" and "nodes P ! self = NName name" and "lookup P self = []"
    and "signature_of self (context_or_new context) \<notin> set (path (context_or_new context))"
  shows "infer_name node_infer P self name c = Some (Gen [] (Some (UnresolvableName name))) \<and>
         infer (Suc fuel) P context self = Some (Gen [] (Some (UnresolvableName name)))"
  using assms by (simp add: infer_node_def path_wrapper_def infer_name_def)

theorem infer_name_unbound_witness:
  "infer_name (infer 0 unbound_program) unbound_program 0 ''u'' new_context =
     Some (Gen [] (Some (UnresolvableName ''u''))) \<and>
   infer 1 unbound_program None 0 = Some (Gen [] (Some (UnresolvableName ''u'')))"
  using infer_name_unbound [of 0 unbound_program "''u''" None "infer 0 unbound_program" new_context 0]
  by (simp add: unbound_program_def lookup_def context_or_new_def new_context_def)

subsection \<open>Cycles\<close>

text \<open>
  In \<open>a = b; b = a\<close> the guard meets the target \<open>a\<close> a second time under the same
  lookup name: the inference of the name \<open>a\<close> yields Unknown alone.
\<close>

lemma mutual_cycle_unknown:
  "infer (Suc (Suc (Suc (Suc (Suc (Suc fuel)))))) mutual_cycle None 3 = Some (Gen [YES] None)"
  by (simp add: infer_defs mutual_cycle_def lookup_def assigned_nodes_def)

subsection \<open>A cycle the guard does not see\<close>

lemma dict_cycle_nodes:
  "nodes dict_cycle ! 0 = NAssName ''y''"
  "nodes dict_cycle ! 1 = NSubscript 2 [5]" "nodes dict_cycle ! Suc 0 = NSubscript 2 [5]"
  "nodes dict_cycle ! 2 = NDict [(3, 4)]" "nodes dict_cycle ! 3 = NName ''z''"
  "nodes dict_cycle ! 5 = NConst (PInt 0)" "nodes dict_cycle ! 6 = NAssName ''z''"
  "nodes dict_cycle ! 7 = NName ''y''" "length (nodes dict_cycle) = 8"
  "lookup dict_cycle 3 = [6]" "lookup dict_cycle 7 = [0]"
  "assigned_nodes dict_cycle 0 = [1]" "assigned_nodes dict_cycle 6 = [7]"
  by (simp_all add: dict_cycle_def lookup_def assigned_nodes_def)

lemma infer_const5: "infer k dict_cycle c 5 = (if k = 0 then None else Some (Gen [Ref 5] None))"
  by (cases k) (simp_all add: infer_node_def dict_cycle_nodes infer_end_def)

text \<open>The subscript does not return when the inference of the key does not.\<close>

lemma subscript_step:
  "f None 3 = None \<Longrightarrow> f (Some c) 5 = None \<or> f (Some c) 5 = Some (Gen [Ref 5] None) \<Longrightarrow>
   infer_subscript f dict_cycle 2 [5] c = None"
  by (auto simp: infer_subscript_def const_value_def node_of_def dict_cycle_nodes getitem_def)

text \<open>
  Every node of the cycle needs the next one, and the subscript needs the key in a
  new context: by induction on the fuel, none of them returns.
\<close>

lemma cycle_all:
  "infer k dict_cycle None 3 = None \<and> infer k dict_cycle (Some cyc1) 6 = None \<and>
   infer k dict_cycle (Some cyc2) 7 = None \<and> infer k dict_cycle (Some cyc3) 0 = None \<and>
   infer k dict_cycle (Some cyc4) 1 = None"
proof (induction k)
  case 0
  show ?case by simp
next
  case (Suc k)
  have a: "infer (Suc k) dict_cycle None 3 = None"
    using Suc by (simp add: infer_defs dict_cycle_nodes cyc1_def)
  have b: "infer (Suc k) dict_cycle (Some cyc1) 6 = None"
    using Suc by (simp add: infer_defs dict_cycle_nodes cyc1_def cyc2_def)
  have c: "infer (Suc k) dict_cycle (Some cyc2) 7 = None"
    using Suc by (simp add: infer_defs dict_cycle_nodes cyc2_def cyc3_def)
  have d: "infer (Suc k) dict_cycle (Some cyc3) 0 = None"
    using Suc by (simp add: infer_defs dict_cycle_nodes cyc3_def cyc4_def)
  have e: "infer (Suc k) dict_cycle (Some cyc4) 1 = None"
    using Suc by (simp add: infer_node_def path_wrapper_def context_or_new_def push_def Let_def
        signature_of_def dict_cycle_nodes cyc4_def subscript_step infer_const5)
  from a b c d e show ?case by simp
qed

lemma subscript_fresh: "infer k dict_cycle None 1 = None"
proof (cases k)
  case 0
  then show ?thesis by simp
next
  case (Suc j)
  have "infer j dict_cycle None 3 = None" using cycle_all by blast
  then show ?thesis using Suc
    by (simp add: infer_node_def path_wrapper_def context_or_new_def push_def Let_def
        signature_of_def new_context_def dict_cycle_nodes subscript_step infer_const5)
qed

lemma subscript_any:
  "signature_of 1 c \<notin> set (path c) \<Longrightarrow> infer k dict_cycle (Some c) 1 = None"
proof (cases k)
  case 0
  then show ?thesis by simp
next
  case (Suc j)
  assume n: "signature_of 1 c \<notin> set (path c)"
  have "infer j dict_cycle None 3 = None" using cycle_all by blast
  then show ?thesis using Suc n
    by (simp add: infer_node_def path_wrapper_def context_or_new_def push_def Let_def
        dict_cycle_nodes subscript_step infer_const5)
qed

lemma name_y_fresh: "infer k dict_cycle None 7 = None"
proof (cases k)
  case 0
  then show ?thesis by simp
next
  case (Suc j)
  show ?thesis
  proof (cases j)
    case 0
    then show ?thesis using Suc by (simp add: infer_defs dict_cycle_nodes)
  next
    case j: (Suc i)
    have "infer i dict_cycle
            (Some \<lparr>path = [(0, None, Some ''y'', None), (7, None, None, None)],
                    lookupname = Some ''y'', boundnode = None, callcontext = None\<rparr>) (Suc 0) = None"
      using subscript_any [of "\<lparr>path = [(0, None, Some ''y'', None), (7, None, None, None)],
                    lookupname = Some ''y'', boundnode = None, callcontext = None\<rparr>" i]
      by (simp add: signature_of_def)
    then show ?thesis unfolding Suc j
      by (simp add: infer_defs dict_cycle_nodes)
  qed
qed

text \<open>
  Claim C1 fails on \<open>y = {z: 1}[0]; z = y\<close>.  \<open>infer_subscript\<close> calls
  \<open>self.expr.getitem(index.value)\<close> without its context, so \<open>Dict.getitem\<close> infers
  the key \<open>z\<close> with \<open>context=None\<close>, in a new context whose path is empty: the cycle
  guard never sees the subscript again, and no amount of fuel lets the inference of
  \<open>y\<close>, of \<open>z\<close> or of the subscript return.
\<close>

theorem infer_dict_cycle_diverges:
  "infer fuel dict_cycle None 7 = None \<and> infer fuel dict_cycle None 3 = None \<and>
   infer fuel dict_cycle None 1 = None"
  using name_y_fresh subscript_fresh cycle_all by blast

section \<open>Properties of the argument binding\<close>

text \<open>
  Claim C2 fails on the positional call of a method.  For \<open>m(self, y=5)\<close> the
  parameter \<open>y\<close> has the declared index \<open>1\<close>, and step 3 reads
  \<open>self.args[argindex]\<close> in the arguments of the call, where the receiver does not
  appear: in \<open>A().m(10)\<close> the argument \<open>10\<close> is at index \<open>0\<close>, index \<open>1\<close> is out of
  range, and the default \<open>5\<close> is inferred.  The call without arguments gives the
  default, and a keyword gives its value, also next to a positional argument.  Node
  \<open>0\<close> is the constant \<open>5\<close>, node \<open>1\<close> the constant \<open>10\<close>; the statement holds for
  every inference function and every context.
\<close>

theorem infer_argument_method_positional:
  "infer_argument node_infer method_program (CallContext_init [] None None) method_m ''y'' c =
     node_infer (Some c) 0 \<and>
   infer_argument node_infer method_program (CallContext_init [Positional 1] None None) method_m ''y'' c =
     node_infer (Some c) 0 \<and>
   infer_argument node_infer method_program (CallContext_init [Keyword ''y'' 1] None None) method_m ''y'' c =
     node_infer (Some c) 1 \<and>
   infer_argument node_infer method_program (CallContext_init [Positional 0, Keyword ''y'' 1] None None)
     method_m ''y'' c = node_infer (Some c) 1 \<and>
   infer (Suc fuel) method_program (Some c) 0 = Some (Gen [Ref 0] None) \<and>
   infer (Suc fuel) method_program (Some c) 1 = Some (Gen [Ref 1] None) \<and>
   nodes method_program ! 0 = NConst (PInt 5) \<and> nodes method_program ! 1 = NConst (PInt 10)"
  by (simp add: infer_argument_def infer_argument_rest_def CallContext_init_def method_m_def
      find_argname_def default_value_def method_program_def infer_node_def infer_end_def)




section \<open>Properties of subscripts and dict items\<close>








end
